theory Spec2Isabelle
  imports Main "HOL-Library.AList"
begin

section \<open>Values shared by the handlers\<close>

text \<open>
  The handlers of \<^verbatim>\<open>assemblyline_ui/api/v4\<close> are Flask views: each one reads the
  request, calls the datastore and returns \<^verbatim>\<open>make_api_response(data, err, status_code)\<close>.
  An exception that no handler catches leaves the view (the application answers 500), so a
  view is modelled as a function into \<open>py_exception + response\<close>, paired with the
  datastore it leaves behind. The datastore, the classification engine, the cache and the
  status lists of \<^verbatim>\<open>assemblyline.odm.models.signature\<close> are imported from another
  package: they are parameters of the model.
\<close>

datatype py_exception =
    KeyError string
  | IndexError string
  | TypeError string
  | AttributeError string
  | MultiKeyError string
  | SearchException string

text \<open>\<^verbatim>\<open>str(e)\<close>: a KeyError prints the repr of its key, the others their message.\<close>

fun exc_str :: "py_exception \<Rightarrow> string" where
  "exc_str (KeyError k) = [CHR 0x27] @ k @ [CHR 0x27]"
| "exc_str (IndexError m) = m"
| "exc_str (TypeError m) = m"
| "exc_str (AttributeError m) = m"
| "exc_str (MultiKeyError m) = m"
| "exc_str (SearchException m) = m"

text \<open>\<^verbatim>\<open>sep.join(xs)\<close> on a list of strings.\<close>

fun join :: "string \<Rightarrow> string list \<Rightarrow> string" where
  "join sep [] = []"
| "join sep [x] = x"
| "join sep (x # y # ys) = x @ sep @ join sep (y # ys)"

text \<open>
  \<^verbatim>\<open>make_api_response(data, err="", status_code=200)\<close>: the JSON envelope. The type of
  the payload differs between handlers.
\<close>

record 'b api_resp =
  api_response :: 'b
  api_error_message :: string
  api_status_code :: nat

definition make_api_response :: "'b \<Rightarrow> string \<Rightarrow> nat \<Rightarrow> 'b api_resp" where
  "make_api_response d e c = \<lparr>api_response = d, api_error_message = e, api_status_code = c\<rparr>"

text \<open>The payloads of the signature handlers: \<^verbatim>\<open>""\<close>, \<^verbatim>\<open>{"success": b}\<close> and
  \<^verbatim>\<open>{"success": b, "id": key}\<close>.\<close>

datatype sig_body = NoData | Success bool | SuccessId bool string

record user =
  uname :: string
  user_classification :: string
  access_control :: string

section \<open>Signature documents and their datastore\<close>

text \<open>
  A stored signature, read with \<^verbatim>\<open>as_obj=False\<close>, is a dictionary. The handlers index
  \<^verbatim>\<open>type\<close>, \<^verbatim>\<open>source\<close>, \<^verbatim>\<open>data\<close>, \<^verbatim>\<open>order\<close>, \<^verbatim>\<open>signature_id\<close> and
  \<^verbatim>\<open>status\<close> directly; \<^verbatim>\<open>classification\<close> is read with a default, the two
  \<^verbatim>\<open>state_change\<close> fields are only written, and \<^verbatim>\<open>meta\<close> (a nested dictionary) is
  indexed by the cascade of \<^verbatim>\<open>change_status\<close> alone, so these are optional here and a
  missing \<^verbatim>\<open>meta\<close> is a KeyError.
\<close>

record signature =
  sig_type :: string
  sig_source :: string
  sig_data :: string
  sig_order :: int
  signature_id :: string
  status :: string
  classification :: "string option"
  state_change_date :: "string option"
  state_change_user :: "string option"
  meta :: "(string \<times> string) list option"

type_synonym sig_store = "string \<rightharpoonup> signature"

text \<open>
  What \<^verbatim>\<open>signature.py\<close> imports: the three status lists, the classification engine,
  the search of the signature index (the ids of the hits of a query string, in the order
  the index returns them) and the boolean that \<^verbatim>\<open>STORAGE.signature.save\<close> returns for a
  key.
\<close>

record sig_config =
  DEPLOYED_STATUSES :: "string list"
  DRAFT_STATUSES :: "string list"
  STALE_STATUSES :: "string list"
  UNRESTRICTED :: string
  is_accessible :: "string \<Rightarrow> string \<Rightarrow> bool"
  search_ids :: "sig_store \<Rightarrow> string \<Rightarrow> string list"
  save_ok :: "string \<Rightarrow> bool"

text \<open>\<^verbatim>\<open>STORAGE.signature.save(key, doc)\<close>: the document is stored under \<open>key\<close> when the
  datastore reports success.\<close>

definition save :: "sig_config \<Rightarrow> sig_store \<Rightarrow> string \<Rightarrow> signature \<Rightarrow> bool \<times> sig_store" where
  "save cfg st key doc = (if save_ok cfg key then (True, st(key \<mapsto> doc)) else (False, st))"

text \<open>\<^verbatim>\<open>STORAGE.signature.multiget(keys, as_dictionary=False)\<close>: the documents in the
  order of the keys; a missing key raises.\<close>

fun multiget :: "sig_store \<Rightarrow> string list \<Rightarrow> py_exception + signature list" where
  "multiget st [] = Inr []"
| "multiget st (k # ks) =
     (case st k of
        None \<Rightarrow> Inl (MultiKeyError k)
      | Some d \<Rightarrow> (case multiget st ks of Inl e \<Rightarrow> Inl e | Inr ds \<Rightarrow> Inr (d # ds)))"

section \<open>change\_status\<close>

text \<open>
  The loop of lines 192 to 197: every document returned by \<^verbatim>\<open>multiget\<close> is stamped,
  set to \<^verbatim>\<open>DISABLED\<close> and saved under the key
  \<^verbatim>\<open>f"{other['meta']['rule_id']}r.{other['meta']['rule_version']}"\<close>. The result of
  the save is dropped. An exception stops the loop; what was saved before stays saved.
\<close>

fun disable_others ::
  "sig_config \<Rightarrow> string \<Rightarrow> string \<Rightarrow> signature list \<Rightarrow> sig_store \<Rightarrow> py_exception option \<times> sig_store" where
  "disable_others cfg today un [] st = (None, st)"
| "disable_others cfg today un (other # rest) st =
     (let other' = other\<lparr>state_change_date := Some today, state_change_user := Some un,
                          status := ''DISABLED''\<rparr>
      in case meta other' of
           None \<Rightarrow> (Some (KeyError ''meta''), st)
         | Some m \<Rightarrow>
             (case map_of m ''rule_id'' of
                None \<Rightarrow> (Some (KeyError ''rule_id''), st)
              | Some rid \<Rightarrow>
                  (case map_of m ''rule_version'' of
                     None \<Rightarrow> (Some (KeyError ''rule_version''), st)
                   | Some rv \<Rightarrow>
                       disable_others cfg today un rest
                         (snd (save cfg st (rid @ ''r.'' @ rv) other')))))"

definition status_query :: "string \<Rightarrow> string \<Rightarrow> string \<Rightarrow> string" where
  "status_query new_status family sid =
     ''status:'' @ new_status @ '' AND signature_id:'' @ family @ '' AND NOT id:'' @ sid"

text \<open>
  \<^verbatim>\<open>change_status(sid, status, user=...)\<close>, lines 161 to 205; \<open>today\<close> is the value of
  \<^verbatim>\<open>now_as_iso()\<close>.
\<close>

definition change_status ::
  "sig_config \<Rightarrow> sig_store \<Rightarrow> string \<Rightarrow> string \<Rightarrow> string \<Rightarrow> user
     \<Rightarrow> (py_exception + sig_body api_resp) \<times> sig_store" where
  "change_status cfg st sid new_status today usr =
     (if new_status \<notin> set (DEPLOYED_STATUSES cfg @ DRAFT_STATUSES cfg) then
        (Inr (make_api_response NoData
               (''You cannot apply the status '' @ new_status @ '' on yara rules.'') 403), st)
      else
        case st sid of
          None \<Rightarrow>
            (Inr (make_api_response NoData (''Signature not found. ('' @ sid @ '')'') 404), st)
        | Some data \<Rightarrow>
            if \<not> is_accessible cfg (user_classification usr)
                   (case classification data of None \<Rightarrow> UNRESTRICTED cfg | Some c \<Rightarrow> c) then
              (Inr (make_api_response NoData
                     ''You are not allowed change status on this signature'' 403), st)
            else if status data \<in> set (STALE_STATUSES cfg)
                    \<and> new_status \<notin> set (DRAFT_STATUSES cfg) then
              (Inr (make_api_response NoData
                     (''Only action available while signature in '' @ status data
                        @ '' status is to change signature to a DRAFT status. (''
                        @ join '', '' (DRAFT_STATUSES cfg) @ '')'') 403), st)
            else if status data \<in> set (DEPLOYED_STATUSES cfg)
                    \<and> new_status \<in> set (DRAFT_STATUSES cfg) then
              (Inr (make_api_response NoData
                     (''You cannot change the status of signature '' @ sid @ '' from ''
                        @ status data @ '' to '' @ new_status @ ''.'') 403), st)
            else
              (let query = status_query new_status (signature_id data) sid;
                   cascade =
                     (if new_status \<notin> set [''DISABLED'', ''INVALID'', ''TESTING''] then
                        (case multiget st (search_ids cfg st query) of
                           Inl e \<Rightarrow> (Some e, st)
                         | Inr others \<Rightarrow> disable_others cfg today (uname usr) others st)
                      else (None, st))
               in case cascade of
                    (Some e, st') \<Rightarrow> (Inl e, st')
                  | (None, st') \<Rightarrow>
                      (let data' = data\<lparr>state_change_date := Some today,
                                          state_change_user := Some (uname usr),
                                          status := new_status\<rparr>;
                           saved = save cfg st' sid data'
                       in (Inr (make_api_response (Success (fst saved)) [] 200), snd saved))))"

text \<open>
  A configuration for the examples: the status groups as the specification lists them,
  a classification engine that lets every caller through, a datastore whose saves succeed,
  and an index that knows one query, the sibling query that \<^verbatim>\<open>change_status\<close>
  builds for \<^verbatim>\<open>yara_F_2\<close> and \<^verbatim>\<open>DEPLOYED\<close>, and answers it by its meaning: the ids,
  among the documents of the example, of those at that status, in the family, other than
  \<^verbatim>\<open>yara_F_2\<close>.
\<close>

definition family_search :: "string \<Rightarrow> string \<Rightarrow> string \<Rightarrow> string list \<Rightarrow> sig_store \<Rightarrow> string list" where
  "family_search st_name family sid ids st =
     filter (\<lambda>k. case st k of
                    None \<Rightarrow> False
                  | Some d \<Rightarrow> status d = st_name \<and> signature_id d = family \<and> k \<noteq> sid) ids"

definition example_config :: sig_config where
  "example_config =
     \<lparr>DEPLOYED_STATUSES = [''DEPLOYED'', ''NOISY''],
      DRAFT_STATUSES = [''STAGING'', ''DISABLED'', ''INVALID'', ''TESTING''],
      STALE_STATUSES = [''INVALID''],
      UNRESTRICTED = ''U'',
      is_accessible = (\<lambda>u c. True),
      search_ids = (\<lambda>st q.
        if q = ''status:DEPLOYED AND signature_id:F AND NOT id:yara_F_2''
        then family_search ''DEPLOYED'' ''F'' ''yara_F_2'' [''yara_F_1'', ''yara_F_2''] st
        else []),
      save_ok = (\<lambda>k. True)\<rparr>"

definition sig_A :: signature where
  "sig_A = \<lparr>sig_type = ''yara'', sig_source = ''source1'', sig_data = ''rule a {}'',
            sig_order = 1, signature_id = ''F'', status = ''DEPLOYED'',
            classification = None, state_change_date = None, state_change_user = None,
            meta = Some [(''rule_id'', ''F''), (''rule_version'', ''1'')]\<rparr>"

definition sig_B :: signature where
  "sig_B = \<lparr>sig_type = ''yara'', sig_source = ''source1'', sig_data = ''rule b {}'',
            sig_order = 2, signature_id = ''F'', status = ''TESTING'',
            classification = None, state_change_date = None, state_change_user = None,
            meta = Some [(''rule_id'', ''F''), (''rule_version'', ''2'')]\<rparr>"

definition family_F :: sig_store where
  "family_F = [''yara_F_1'' \<mapsto> sig_A, ''yara_F_2'' \<mapsto> sig_B]"

definition admin :: user where
  "admin = \<lparr>uname = ''admin'', user_classification = ''U'', access_control = ''U''\<rparr>"

section \<open>Signature sources of a service\<close>

text \<open>
  A source object, as the request carries it and as the service's
  \<^verbatim>\<open>update_config.sources\<close> list stores it. The handlers index \<^verbatim>\<open>name\<close> and
  \<^verbatim>\<open>uri\<close>; the other keys are carried along.
\<close>

record source =
  src_name :: string
  src_uri :: string
  src_username :: "string option"
  src_password :: "string option"
  src_header :: "(string \<times> string) list"
  src_public_key :: "string option"
  src_pattern :: "string option"

text \<open>
  A service document, and a service delta, as far as the handlers read them: the
  \<^verbatim>\<open>update_config\<close> dictionary, which may be absent, with its optional
  \<^verbatim>\<open>generates_signatures\<close> and \<^verbatim>\<open>sources\<close> keys.
\<close>

record update_config =
  generates_signatures :: "bool option"
  sources :: "source list option"

record service =
  svc_update_config :: "update_config option"

text \<open>
  \<^verbatim>\<open>STORAGE.service_delta\<close> maps a service name to its delta; both
  \<^verbatim>\<open>STORAGE.service_delta.get\<close> and \<^verbatim>\<open>STORAGE.get_service_with_delta\<close> are called
  on as returning a dictionary. The merge of a service with its delta is the datastore's and
  is a parameter, as is the boolean that \<^verbatim>\<open>STORAGE.service_delta.save\<close> returns.
\<close>

type_synonym delta_store = "string \<Rightarrow> service"

record svc_env =
  get_service_with_delta :: "delta_store \<Rightarrow> string \<Rightarrow> service"
  delta_save_ok :: "string \<Rightarrow> bool"

definition delta_save :: "svc_env \<Rightarrow> delta_store \<Rightarrow> string \<Rightarrow> service \<Rightarrow> bool \<times> delta_store" where
  "delta_save env deltas key doc =
     (if delta_save_ok env key then (True, deltas(key := doc)) else (False, deltas))"

text \<open>\<^verbatim>\<open>service_data.get('update_config', {}).get('generates_signatures', False)\<close>\<close>

definition svc_generates_signatures :: "service \<Rightarrow> bool" where
  "svc_generates_signatures service_data =
     (case svc_update_config service_data of
        None \<Rightarrow> False
      | Some uc \<Rightarrow> (case generates_signatures uc of None \<Rightarrow> False | Some b \<Rightarrow> b))"

text \<open>\<^verbatim>\<open>service_data.get('update_config', {}).get('sources', [])\<close>\<close>

definition svc_sources :: "service \<Rightarrow> source list" where
  "svc_sources service_data =
     (case svc_update_config service_data of
        None \<Rightarrow> []
      | Some uc \<Rightarrow> (case sources uc of None \<Rightarrow> [] | Some l \<Rightarrow> l))"

text \<open>
  Lines 132 to 135 (and 279 to 282, 540 to 543): the delta gets a fresh
  \<^verbatim>\<open>update_config\<close> holding only the sources when it has none, and has its
  \<^verbatim>\<open>sources\<close> key overwritten otherwise.
\<close>

definition set_delta_sources :: "service \<Rightarrow> source list \<Rightarrow> service" where
  "set_delta_sources service_delta l =
     (case svc_update_config service_delta of
        None \<Rightarrow>
          service_delta\<lparr>svc_update_config :=
            Some \<lparr>generates_signatures = None, sources = Some l\<rparr>\<rparr>
      | Some uc \<Rightarrow> service_delta\<lparr>svc_update_config := Some (uc\<lparr>sources := Some l\<rparr>)\<rparr>)"

text \<open>The loop of lines 119 to 128: the first existing source with the new name or the
  new uri ends the request.\<close>

fun check_sources :: "source list \<Rightarrow> source \<Rightarrow> sig_body api_resp option" where
  "check_sources [] data = None"
| "check_sources (s # rest) data =
     (if src_name s = src_name data then
        Some (make_api_response (Success False)
               (''Update source filename already exist: '' @ src_name data) 400)
      else if src_uri s = src_uri data then
        Some (make_api_response (Success False)
               (''Update source uri already exist: '' @ src_uri data) 400)
      else check_sources rest data)"

text \<open>
  \<^verbatim>\<open>add_signature_source(service)\<close>, lines 104 to 138. \<open>body\<close> is
  \<^verbatim>\<open>request.json\<close>, \<open>None\<close> when reading it raised \<^verbatim>\<open>ValueError\<close> or
  \<^verbatim>\<open>KeyError\<close>.
\<close>

definition add_signature_source ::
  "svc_env \<Rightarrow> delta_store \<Rightarrow> string \<Rightarrow> source option
     \<Rightarrow> (py_exception + sig_body api_resp) \<times> delta_store" where
  "add_signature_source env deltas svc body =
     (case body of
        None \<Rightarrow>
          (Inr (make_api_response (Success False) ''Invalid source object data'' 400), deltas)
      | Some data \<Rightarrow>
          (let service_data = get_service_with_delta env deltas svc in
           if \<not> svc_generates_signatures service_data then
             (Inr (make_api_response (Success False)
                    (''This service does not generate alerts therefor ''
                       @ ''you cannot add a source to get the alerts from'') 400), deltas)
           else
             (let current_sources = svc_sources service_data in
              case check_sources current_sources data of
                Some resp \<Rightarrow> (Inr resp, deltas)
              | None \<Rightarrow>
                  (let current_sources' = current_sources @ [data];
                       service_delta = set_delta_sources (deltas svc) current_sources';
                       saved = delta_save env deltas svc service_delta
                   in (Inr (make_api_response (Success (fst saved)) [] 200), snd saved)))))"

text \<open>The loop of lines 525 to 532: every source named as the new data is replaced by
  it, the others are kept, in order; \<open>found\<close> tells whether one was replaced.\<close>

fun replace_source :: "source \<Rightarrow> source list \<Rightarrow> source list \<times> bool \<Rightarrow> source list \<times> bool" where
  "replace_source data [] (new_sources, found) = (new_sources, found)"
| "replace_source data (s # rest) (new_sources, found) =
     (if src_name data = src_name s
      then replace_source data rest (new_sources @ [data], True)
      else replace_source data rest (new_sources @ [s], found))"

text \<open>
  \<^verbatim>\<open>update_signature_source(service, name)\<close>, lines 506 to 546. The message of the
  404 answer is the f-string \<^verbatim>\<open>f"Could not found source '{data.name}' in ..."\<close>;
  \<^verbatim>\<open>data\<close> is a dictionary, so evaluating \<^verbatim>\<open>data.name\<close> raises AttributeError
  before the answer is built.
\<close>

definition update_signature_source ::
  "svc_env \<Rightarrow> delta_store \<Rightarrow> string \<Rightarrow> string \<Rightarrow> source
     \<Rightarrow> (py_exception + sig_body api_resp) \<times> delta_store" where
  "update_signature_source env deltas svc name data =
     (let service_data = get_service_with_delta env deltas svc;
          current_sources = svc_sources service_data
      in
      if name \<noteq> src_name data then
        (Inr (make_api_response (Success False)
               ''You are not allowed to change the source resulting filename.'' 400), deltas)
      else if \<not> svc_generates_signatures service_data then
        (Inr (make_api_response (Success False)
               ''This service does not generate alerts therefor you cannot update its sources.''
               400), deltas)
      else if length current_sources = 0 then
        (Inr (make_api_response (Success False)
               ''This service does not have any sources therefor you cannot update any source.''
               400), deltas)
      else
        (case replace_source data current_sources ([], False) of
           (new_sources, found) \<Rightarrow>
             if \<not> found then
               (Inl (AttributeError
                      ([CHR 0x27] @ ''dict'' @ [CHR 0x27] @ '' object has no attribute ''
                         @ [CHR 0x27] @ ''name'' @ [CHR 0x27])), deltas)
             else
               (let service_delta = set_delta_sources (deltas svc) new_sources;
                    saved = delta_save env deltas svc service_delta
                in (Inr (make_api_response (Success (fst saved)) [] 200), snd saved))))"

text \<open>A service for the examples: it generates signatures and has two sources.\<close>

definition src1 :: source where
  "src1 = \<lparr>src_name = ''rules.yar'', src_uri = ''http://a/rules.yar'', src_username = None,
           src_password = None, src_header = [], src_public_key = None,
           src_pattern = None\<rparr>"

definition src2 :: source where
  "src2 = \<lparr>src_name = ''more.yar'', src_uri = ''http://b/more.yar'', src_username = None,
           src_password = None, src_header = [], src_public_key = None,
           src_pattern = None\<rparr>"

definition yara_service :: "bool \<Rightarrow> source list \<Rightarrow> service" where
  "yara_service gen l =
     \<lparr>svc_update_config = Some \<lparr>generates_signatures = Some gen, sources = Some l\<rparr>\<rparr>"

text \<open>The datastore of the examples keeps the whole service in its delta, so the merge
  is the delta itself; its saves succeed.\<close>

definition example_svc_env :: svc_env where
  "example_svc_env =
     \<lparr>get_service_with_delta = (\<lambda>deltas svc. deltas svc), delta_save_ok = (\<lambda>k. True)\<rparr>"

definition idle_deltas :: delta_store where
  "idle_deltas = (\<lambda>svc. yara_service False [src1])"

definition yara_deltas :: delta_store where
  "yara_deltas = (\<lambda>svc. yara_service True [src1, src2])"

definition empty_deltas :: delta_store where
  "empty_deltas = (\<lambda>svc. yara_service True [])"

section \<open>download\_signatures\<close>

text \<open>
  The bundle is a zip archive built by \<^verbatim>\<open>InMemoryZip\<close>, a class of another package:
  the archive is the list of the entries appended to it, \<open>(name, content)\<close> in the order
  of the appends, and \<^verbatim>\<open>read()\<close>, which turns it into bytes, is a parameter. So are
  \<^verbatim>\<open>sha256(...).hexdigest()\<close> and \<^verbatim>\<open>STORAGE.signature.stream_search\<close> (the ids of
  the documents that match the query and that the access control lets through).
\<close>

type_synonym blob = string
type_synonym archive = "(string \<times> string) list"
type_synonym cache = "string \<rightharpoonup> blob"

record dl_env =
  sha256_hexdigest :: "string \<Rightarrow> string"
  stream_search :: "sig_store \<Rightarrow> string \<Rightarrow> string \<Rightarrow> string list"
  zip_read :: "archive \<Rightarrow> blob"

text \<open>\<^verbatim>\<open>make_file_response(data, name, size, content_type=...)\<close>\<close>

record file_response =
  file_data :: blob
  file_name :: string
  file_size :: nat
  content_type :: string

definition make_file_response :: "blob \<Rightarrow> string \<Rightarrow> nat \<Rightarrow> string \<Rightarrow> file_response" where
  "make_file_response d n sz ct =
     \<lparr>file_data = d, file_name = n, file_size = sz, content_type = ct\<rparr>"

definition zip_name :: "string \<Rightarrow> string" where
  "zip_name query_hash = ''al_signatures_'' @ take 7 query_hash @ ''.zip''"

text \<open>
  \<^verbatim>\<open>_get_cached_signatures(signature_cache, query_hash)\<close>. The cache is a map from keys
  to blobs. A read that raises is logged and answers \<^verbatim>\<open>None\<close>, as a miss does: for
  the handler such a cache is one without the entry.
\<close>

definition get_cached_signatures :: "cache \<Rightarrow> string \<Rightarrow> file_response option" where
  "get_cached_signatures signature_cache query_hash =
     (case signature_cache query_hash of
        None \<Rightarrow> None
      | Some s \<Rightarrow> Some (make_file_response s (zip_name query_hash) (length s) ''application/zip''))"

definition out_fname :: "signature \<Rightarrow> string" where
  "out_fname sig = sig_type sig @ ''/'' @ sig_source sig"

text \<open>
  Lines 349 to 351: \<^verbatim>\<open>output_files\<close> is a dictionary from file names to lists of rule
  texts. A Python dictionary keeps its keys in the order of their first insertion, so it is
  an association list here: a new name goes to the end, a known name gets the text appended
  to its list.
\<close>

definition add_output :: "(string \<times> string list) list \<Rightarrow> signature \<Rightarrow> (string \<times> string list) list" where
  "add_output output_files sig =
     (case map_of output_files (out_fname sig) of
        None \<Rightarrow> output_files @ [(out_fname sig, [sig_data sig])]
      | Some texts \<Rightarrow> AList.update (out_fname sig) (texts @ [sig_data sig]) output_files)"

text \<open>
  Lines 345 to 355: the documents are sorted by \<^verbatim>\<open>order\<close> (\<^verbatim>\<open>sorted\<close> is stable, as
  \<open>sort_key\<close> is), grouped, and each group is joined by two newlines into one entry of
  the archive.
\<close>

definition bundle_entries :: "signature list \<Rightarrow> archive" where
  "bundle_entries docs =
     map (\<lambda>(fname, texts). (fname, join [CHR 0x0A, CHR 0x0A] texts))
       (foldl add_output [] (sort_key sig_order docs))"

text \<open>The rule texts of the signatures of a list that go to the file \<open>f\<close>, in the order
  of the list.\<close>

definition texts_of :: "string \<Rightarrow> signature list \<Rightarrow> string list" where
  "texts_of f sigs = map sig_data (filter (\<lambda>s. out_fname s = f) sigs)"

text \<open>
  \<^verbatim>\<open>download_signatures(user=...)\<close>, lines 323 to 364, as one caller runs it.
  \<open>query_arg\<close> is the \<^verbatim>\<open>query\<close> argument of the request, \<open>last_modified\<close> the
  value of \<^verbatim>\<open>STORAGE.get_signature_last_modified()\<close>. The second look into the cache
  is the one made while holding the lock.
\<close>

definition download_signatures ::
  "dl_env \<Rightarrow> sig_store \<Rightarrow> cache \<Rightarrow> string option \<Rightarrow> string \<Rightarrow> user
     \<Rightarrow> (py_exception + file_response) \<times> cache" where
  "download_signatures env st signature_cache query_arg last_modified usr =
     (let query = (case query_arg of None \<Rightarrow> ''status:DEPLOYED'' | Some q \<Rightarrow> q);
          access = access_control usr;
          query_hash = sha256_hexdigest env (query @ ''.'' @ access @ ''.'' @ last_modified)
      in
      case get_cached_signatures signature_cache query_hash of
        Some response \<Rightarrow> (Inr response, signature_cache)
      | None \<Rightarrow>
          (case get_cached_signatures signature_cache query_hash of
             Some response \<Rightarrow> (Inr response, signature_cache)
           | None \<Rightarrow>
               (case multiget st (stream_search env st query access) of
                  Inl e \<Rightarrow> (Inl e, signature_cache)
                | Inr docs \<Rightarrow>
                    (let rule_file_bin = zip_read env (bundle_entries docs)
                     in (Inr (make_file_response rule_file_bin (zip_name query_hash)
                               (length rule_file_bin) ''application/zip''),
                         signature_cache(query_hash \<mapsto> rule_file_bin))))))"

text \<open>
  For the examples: a third signature, of another type and source; two signatures whose
  types and sources differ and whose file names agree; and an environment whose hash is the
  identity, whose archive bytes list the entries, and whose index knows the default query:
  it answers the ids, among those of the examples, of the stored documents at status
  \<^verbatim>\<open>DEPLOYED\<close>.
\<close>

definition sig_C :: signature where
  "sig_C = \<lparr>sig_type = ''suricata'', sig_source = ''source2'', sig_data = ''alert c'',
            sig_order = 3, signature_id = ''G'', status = ''DEPLOYED'',
            classification = None, state_change_date = None, state_change_user = None,
            meta = None\<rparr>"

definition sig_X :: signature where
  "sig_X = sig_C\<lparr>sig_type := ''a/b'', sig_source := ''c'', sig_data := ''x''\<rparr>"

definition sig_Y :: signature where
  "sig_Y = sig_C\<lparr>sig_type := ''a'', sig_source := ''b/c'', sig_data := ''y''\<rparr>"

definition example_zip_read :: "archive \<Rightarrow> blob" where
  "example_zip_read entries = concat (map (\<lambda>(n, c). ''['' @ n @ '':'' @ c @ '']'') entries)"

definition deployed_ids :: "sig_store \<Rightarrow> string list \<Rightarrow> string list" where
  "deployed_ids st ids =
     filter (\<lambda>k. case st k of None \<Rightarrow> False | Some d \<Rightarrow> status d = ''DEPLOYED'') ids"

definition example_dl_env :: dl_env where
  "example_dl_env =
     \<lparr>sha256_hexdigest = (\<lambda>s. s),
      stream_search = (\<lambda>st q access.
        if q = ''status:DEPLOYED'' then deployed_ids st [''s3'', ''s2'', ''s1'', ''x'', ''y'']
        else []),
      zip_read = example_zip_read\<rparr>"

definition corpus :: sig_store where
  "corpus = [''s1'' \<mapsto> sig_A, ''s2'' \<mapsto> sig_B\<lparr>status := ''DEPLOYED''\<rparr>, ''s3'' \<mapsto> sig_C]"

definition slash_corpus :: sig_store where
  "slash_corpus = [''x'' \<mapsto> sig_X, ''y'' \<mapsto> sig_Y]"


text \<open>The fingerprint of a request: the key of the cache.\<close>

definition fingerprint :: "dl_env \<Rightarrow> string option \<Rightarrow> string \<Rightarrow> user \<Rightarrow> string" where
  "fingerprint env query_arg last_modified usr =
     sha256_hexdigest env
       ((case query_arg of None \<Rightarrow> ''status:DEPLOYED'' | Some q \<Rightarrow> q)
          @ ''.'' @ access_control usr @ ''.'' @ last_modified)"

section \<open>add\_signature\<close>

text \<open>
  The body of the request is a JSON object, indexed by key: an association list from keys
  to JSON values. Of the JSON values, null, strings and integers are enough for the fields
  that \<^verbatim>\<open>add_signature\<close> reads. The document that is saved is the body itself, so the
  signature index is here a map from keys to such objects.
\<close>

datatype json = JNull | JStr string | JInt int

type_synonym json_dict = "(string \<times> json) list"

fun digits :: "nat \<Rightarrow> string" where
  "digits n =
     (if n < 10 then [char_of (48 + n)] else digits (n div 10) @ [char_of (48 + n mod 10)])"

text \<open>What an f-string prints for a value.\<close>

fun py_str :: "json \<Rightarrow> string" where
  "py_str JNull = ''None''"
| "py_str (JStr s) = s"
| "py_str (JInt i) = (if i < 0 then ''-'' @ digits (nat (- i)) else digits (nat i))"

text \<open>
  \<^verbatim>\<open>get_id_from_data(data, SHORT)\<close>, the number of hits of a search of the index
  (\<^verbatim>\<open>search(...)['total']\<close>) and the boolean returned by a save are the datastore's.
\<close>

record add_env =
  get_id_from_data :: "json \<Rightarrow> string"
  search_total :: "(string \<rightharpoonup> json_dict) \<Rightarrow> string \<Rightarrow> nat"
  body_save_ok :: "string \<Rightarrow> bool"

definition mandatory_msg :: string where
  "mandatory_msg = ''Signature name, type and data are mandatory fields.''"

text \<open>
  \<^verbatim>\<open>add_signature()\<close>, lines 49 to 73. \<^verbatim>\<open>data.get('type', None)\<close> reads a missing
  key as null; \<^verbatim>\<open>data['name']\<close>, \<^verbatim>\<open>data['data']\<close>, \<^verbatim>\<open>data['revision']\<close> and
  \<^verbatim>\<open>data['source']\<close> raise KeyError on a missing key. The \<^verbatim>\<open>or\<close> of line 51 stops
  at its first true operand.
\<close>

definition add_signature ::
  "add_env \<Rightarrow> (string \<rightharpoonup> json_dict) \<Rightarrow> json_dict
     \<Rightarrow> (py_exception + sig_body api_resp) \<times> (string \<rightharpoonup> json_dict)" where
  "add_signature env st data =
     (let t = (case map_of data ''type'' of None \<Rightarrow> JNull | Some v \<Rightarrow> v) in
      if t = JNull then (Inr (make_api_response NoData mandatory_msg 400), st)
      else
        case map_of data ''name'' of
          None \<Rightarrow> (Inl (KeyError ''name''), st)
        | Some n \<Rightarrow>
            if n = JNull then (Inr (make_api_response NoData mandatory_msg 400), st)
            else
              case map_of data ''data'' of
                None \<Rightarrow> (Inl (KeyError ''data''), st)
              | Some d \<Rightarrow>
                  if d = JNull then (Inr (make_api_response NoData mandatory_msg 400), st)
                  else
                    (let computed = JStr (get_id_from_data env d);
                         sid = (case map_of data ''signature_id'' of
                                  None \<Rightarrow> computed | Some v \<Rightarrow> v);
                         data1 = AList.update ''signature_id'' sid data
                     in
                     case map_of data1 ''revision'' of
                       None \<Rightarrow> (Inl (KeyError ''revision''), st)
                     | Some revision \<Rightarrow>
                         (let key = py_str t @ ''_'' @ py_str sid @ ''_'' @ py_str revision
                          in
                          case map_of data1 ''source'' of
                            None \<Rightarrow> (Inl (KeyError ''source''), st)
                          | Some src \<Rightarrow>
                              (let check_name_query =
                                     ''name:'' @ py_str n @ '' AND type:'' @ py_str t
                                       @ '' AND source:'' @ py_str src
                                       @ '' AND NOT id:'' @ py_str sid @ ''*''
                               in
                               if search_total env st check_name_query > 0 then
                                 (Inr (make_api_response (Success False)
                                        ''A signature with that name already exists'' 400), st)
                               else
                                 (Inr (make_api_response
                                        (SuccessId (body_save_ok env key) key) [] 200),
                                  if body_save_ok env key then st(key \<mapsto> data1) else st)))))"

definition example_add_env :: add_env where
  "example_add_env =
     \<lparr>get_id_from_data = (\<lambda>d. ''0123abcd''), search_total = (\<lambda>st q. 0),
      body_save_ok = (\<lambda>k. True)\<rparr>"

section \<open>get\_additional\_details\<close>

text \<open>
  A file document as the handler reads it: \<^verbatim>\<open>classification\<close> is indexed,
  \<^verbatim>\<open>tlsh\<close> is indexed inside the first \<^verbatim>\<open>try\<close>, \<^verbatim>\<open>ssdeep\<close> is read with the
  default \<^verbatim>\<open>''\<close>.
\<close>

record file_doc =
  file_classification :: string
  tlsh :: "string option"
  ssdeep :: "string option"

text \<open>The values of \<^verbatim>\<open>offset\<close>, \<^verbatim>\<open>rows\<close> and \<^verbatim>\<open>sort\<close>: numbers in the defaults
  and in a JSON body, strings in the query string.\<close>

datatype pval = PInt int | PStr string

record search_params =
  p_offset :: pval
  p_rows :: pval
  p_sort :: pval
  p_fl :: string
  p_filters :: "string list"
  p_access_control :: string
  p_as_obj :: bool
  p_index_type :: string

record request =
  req_method :: string
  req_json :: "string \<rightharpoonup> pval"
  req_args :: "string \<rightharpoonup> pval"

text \<open>The answer of a file search, and a slot of the output: the empty dictionary it
  starts as, the answer of a search, or the text of an error.\<close>

record search_result =
  sr_items :: "string list"
  sr_offset :: nat
  sr_rows :: nat
  sr_total :: nat

datatype slot = EmptySlot | Hits search_result | ErrorText string

record related =
  out_tlsh :: slot
  out_ssdeep1 :: slot
  out_ssdeep2 :: slot
  out_vector :: slot

datatype arch_body = EmptyDict | Related related

text \<open>
  A result document, as far as the vector block reads it: the list of its sections, each
  the \<^verbatim>\<open>tags.vector\<close> list of the section, \<open>None\<close> when the section has none.
\<close>

type_synonym result_doc = "string list option list"

text \<open>
  The datastore and the classification engine. A search either raises or answers:
  \<^verbatim>\<open>STORAGE.file.search\<close> answers a page of hits;
  \<^verbatim>\<open>STORAGE.result.search\<close> answers a dictionary of which the handler reads the ids of
  the \<^verbatim>\<open>items\<close> (\<open>None\<close> when the key is missing);
  \<^verbatim>\<open>STORAGE.result.stream_search\<close> answers ids. \<open>set_iteration\<close> is the order in
  which Python iterates the set built from a list.
\<close>

record arch_env =
  file_get :: "string \<Rightarrow> file_doc option"
  arch_is_accessible :: "string \<Rightarrow> string \<Rightarrow> bool"
  file_search :: "string \<Rightarrow> search_params \<Rightarrow> py_exception + search_result"
  result_search :: "string \<Rightarrow> py_exception + string list option"
  result_multiget :: "string list \<Rightarrow> py_exception + result_doc list"
  result_stream_search :: "string \<Rightarrow> py_exception + string list"
  set_iteration :: "string list \<Rightarrow> string list"

text \<open>\<^verbatim>\<open>s.split(sep)\<close> for a one-character separator, and \<^verbatim>\<open>xs[i]\<close>.\<close>

fun py_split :: "char \<Rightarrow> string \<Rightarrow> string list" where
  "py_split c [] = [[]]"
| "py_split c (x # xs) =
     (if x = c then [] # py_split c xs
      else (case py_split c xs of [] \<Rightarrow> [[x]] | w # ws \<Rightarrow> (x # w) # ws))"

definition py_index :: "'a list \<Rightarrow> nat \<Rightarrow> py_exception + 'a" where
  "py_index xs i =
     (if i < length xs then Inr (xs ! i) else Inl (IndexError ''list index out of range''))"

text \<open>\<^verbatim>\<open>s.replace('/', '\\/')\<close>: a backslash before every slash.\<close>

definition escape_slash :: "string \<Rightarrow> string" where
  "escape_slash s = concat (map (\<lambda>c. if c = CHR ''/'' then [CHR 0x5C, CHR ''/''] else [c]) s)"

definition search_error :: "py_exception \<Rightarrow> slot" where
  "search_error e = ErrorText (''SearchException: '' @ exc_str e)"

text \<open>Lines 110 to 128: the default parameters, overwritten by the fields of the request
  that are present and not null.\<close>

definition default_params :: "string \<Rightarrow> user \<Rightarrow> search_params" where
  "default_params sha256 usr =
     \<lparr>p_offset = PInt 0, p_rows = PInt 10, p_sort = PStr ''seen.last desc'',
      p_fl = ''type,sha256,seen.last'',
      p_filters = [''NOT(sha256:'' @ [CHR 0x22] @ sha256 @ [CHR 0x22] @ '')''],
      p_access_control = access_control usr, p_as_obj = False,
      p_index_type = ''HOT_AND_ARCHIVE''\<rparr>"

definition update_params :: "search_params \<Rightarrow> (string \<rightharpoonup> pval) \<Rightarrow> search_params" where
  "update_params params req_data =
     (let p1 = (case req_data ''offset'' of None \<Rightarrow> params | Some v \<Rightarrow> params\<lparr>p_offset := v\<rparr>);
          p2 = (case req_data ''rows'' of None \<Rightarrow> p1 | Some v \<Rightarrow> p1\<lparr>p_rows := v\<rparr>)
      in case req_data ''sort'' of None \<Rightarrow> p2 | Some v \<Rightarrow> p2\<lparr>p_sort := v\<rparr>)"

definition request_params :: "request \<Rightarrow> string \<Rightarrow> user \<Rightarrow> search_params" where
  "request_params req sha256 usr =
     update_params (default_params sha256 usr)
       (if req_method req = ''POST'' then req_json req else req_args req)"

text \<open>Lines 133 to 137, the first \<^verbatim>\<open>try\<close>: what its body computes, or the exception
  that leaves it, and the block with its handler.\<close>

definition tlsh_search :: "arch_env \<Rightarrow> file_doc \<Rightarrow> search_params \<Rightarrow> py_exception + search_result" where
  "tlsh_search env file_obj params =
     (case tlsh file_obj of
        None \<Rightarrow> Inl (KeyError ''tlsh'')
      | Some t \<Rightarrow> file_search env (''tlsh:'' @ escape_slash t) params)"

definition process_tlsh :: "arch_env \<Rightarrow> file_doc \<Rightarrow> search_params \<Rightarrow> related \<Rightarrow> related" where
  "process_tlsh env file_obj params out =
     (case tlsh_search env file_obj params of
        Inr r \<Rightarrow> out\<lparr>out_tlsh := Hits r\<rparr>
      | Inl e \<Rightarrow> out\<lparr>out_tlsh := search_error e\<rparr>)"

text \<open>
  Lines 140 to 146, the second \<^verbatim>\<open>try\<close>: both searches stand in one block, and its
  handler writes the error into both slots, over what the first search may have stored.
\<close>

definition ssdeep_failed :: "py_exception \<Rightarrow> related \<Rightarrow> related" where
  "ssdeep_failed e out = out\<lparr>out_ssdeep1 := search_error e, out_ssdeep2 := search_error e\<rparr>"

definition process_ssdeep :: "arch_env \<Rightarrow> file_doc \<Rightarrow> search_params \<Rightarrow> related \<Rightarrow> related" where
  "process_ssdeep env file_obj params out =
     (let parts = py_split CHR '':''
                    (escape_slash (case ssdeep file_obj of None \<Rightarrow> [] | Some s \<Rightarrow> s))
      in
      case py_index parts 1 of
        Inl e \<Rightarrow> ssdeep_failed e out
      | Inr part1 \<Rightarrow>
          (case file_search env (''ssdeep:'' @ part1 @ ''~'') params of
             Inl e \<Rightarrow> ssdeep_failed e out
           | Inr r1 \<Rightarrow>
               (let out1 = out\<lparr>out_ssdeep1 := Hits r1\<rparr> in
                case py_index parts 2 of
                  Inl e \<Rightarrow> ssdeep_failed e out1
                | Inr part2 \<Rightarrow>
                    (case file_search env (''ssdeep:'' @ part2 @ ''~'') params of
                       Inl e \<Rightarrow> ssdeep_failed e out1
                     | Inr r2 \<Rightarrow> out1\<lparr>out_ssdeep2 := Hits r2\<rparr>))))"

text \<open>
  The two searches of that block read on their own: the pair of answers when both the
  split of the hash and the two searches go through, the first exception otherwise.
\<close>

definition ssdeep_search ::
  "arch_env \<Rightarrow> file_doc \<Rightarrow> search_params \<Rightarrow> py_exception + search_result \<times> search_result" where
  "ssdeep_search env file_obj params =
     (let parts = py_split CHR '':''
                    (escape_slash (case ssdeep file_obj of None \<Rightarrow> [] | Some s \<Rightarrow> s))
      in
      case py_index parts 1 of
        Inl e \<Rightarrow> Inl e
      | Inr part1 \<Rightarrow>
          (case file_search env (''ssdeep:'' @ part1 @ ''~'') params of
             Inl e \<Rightarrow> Inl e
           | Inr r1 \<Rightarrow>
               (case py_index parts 2 of
                  Inl e \<Rightarrow> Inl e
                | Inr part2 \<Rightarrow>
                    (case file_search env (''ssdeep:'' @ part2 @ ''~'') params of
                       Inl e \<Rightarrow> Inl e
                     | Inr r2 \<Rightarrow> Inr (r1, r2)))))"

text \<open>Lines 158 to 161: the vectors of all sections of all results; a section without
  \<^verbatim>\<open>vector\<close> tags raises KeyError.\<close>

fun section_vectors :: "string list option list \<Rightarrow> py_exception + string list" where
  "section_vectors [] = Inr []"
| "section_vectors (None # rest) = Inl (KeyError ''vector'')"
| "section_vectors (Some vs # rest) =
     (case section_vectors rest of Inl e \<Rightarrow> Inl e | Inr ws \<Rightarrow> Inr (vs @ ws))"

fun collect_vectors :: "result_doc list \<Rightarrow> py_exception + string list" where
  "collect_vectors [] = Inr []"
| "collect_vectors (r # rest) =
     (case section_vectors r of
        Inl e \<Rightarrow> Inl e
      | Inr vs \<Rightarrow> (case collect_vectors rest of Inl e \<Rightarrow> Inl e | Inr ws \<Rightarrow> Inr (vs @ ws)))"

text \<open>The first component of \<^verbatim>\<open>x['id'].split('.')\<close>.\<close>

definition id_prefix :: "string \<Rightarrow> string" where
  "id_prefix i = (case py_split CHR ''.'' i of [] \<Rightarrow> [] | w # ws \<Rightarrow> w)"

text \<open>Lines 151 to 169, the third \<^verbatim>\<open>try\<close>, as the value it computes or the exception
  that leaves it.\<close>

definition vector_search :: "arch_env \<Rightarrow> string \<Rightarrow> search_params \<Rightarrow> py_exception + search_result" where
  "vector_search env sha256 params =
     (case result_search env (''sha256:'' @ sha256 @ '' AND response.service_name:APIVector'') of
        Inl e \<Rightarrow> Inl e
      | Inr None \<Rightarrow>
          Inl (TypeError ([CHR 0x27] @ ''NoneType'' @ [CHR 0x27] @ '' object is not iterable''))
      | Inr (Some ids) \<Rightarrow>
          (case result_multiget env ids of
             Inl e \<Rightarrow> Inl e
           | Inr results \<Rightarrow>
               (case collect_vectors results of
                  Inl e \<Rightarrow> Inl e
                | Inr vector \<Rightarrow>
                    (let query = join '' OR ''
                                   (map (\<lambda>v. ''result.sections.tags.vector:'' @ v) vector)
                     in
                     case result_search env query of
                       Inl e \<Rightarrow> Inl e
                     | Inr unused \<Rightarrow>
                         (case result_stream_search env query of
                            Inl e \<Rightarrow> Inl e
                          | Inr hits \<Rightarrow>
                              (let ids' = set_iteration env (map id_prefix hits);
                                   query' = join '' OR '' (map (\<lambda>i. ''sha256:'' @ i) ids')
                               in file_search env query' params))))))"

definition process_vector :: "arch_env \<Rightarrow> string \<Rightarrow> search_params \<Rightarrow> related \<Rightarrow> related" where
  "process_vector env sha256 params out =
     (case vector_search env sha256 params of
        Inr r \<Rightarrow> out\<lparr>out_vector := Hits r\<rparr>
      | Inl e \<Rightarrow> out\<lparr>out_vector := search_error e\<rparr>)"

text \<open>\<^verbatim>\<open>get_additional_details(sha256, user=...)\<close>, lines 100 to 171. The caller may be
  missing (\<^verbatim>\<open>not user\<close>).\<close>

definition get_additional_details ::
  "arch_env \<Rightarrow> request \<Rightarrow> string \<Rightarrow> user option \<Rightarrow> arch_body api_resp" where
  "get_additional_details env req sha256 usr_opt =
     (case file_get env sha256 of
        None \<Rightarrow> make_api_response EmptyDict ''This file does not exists'' 404
      | Some file_obj \<Rightarrow>
          (case usr_opt of
             None \<Rightarrow> make_api_response EmptyDict ''You are not allowed to view this file'' 403
           | Some usr \<Rightarrow>
               if \<not> arch_is_accessible env (user_classification usr)
                      (file_classification file_obj) then
                 make_api_response EmptyDict ''You are not allowed to view this file'' 403
               else
                 (let params = request_params req sha256 usr;
                      out0 = \<lparr>out_tlsh = EmptySlot, out_ssdeep1 = EmptySlot,
                              out_ssdeep2 = EmptySlot, out_vector = EmptySlot\<rparr>;
                      out1 = process_tlsh env file_obj params out0;
                      out2 = process_ssdeep env file_obj params out1;
                      out3 = process_vector env sha256 params out2
                  in make_api_response (Related out3) [] 200)))"

text \<open>
  For the examples: a file with both fuzzy hashes, and a datastore whose file search
  answers a page naming the query it was given, except that it raises on the queries of
  \<open>failing\<close>; no result carries a vector.
\<close>

definition page :: "string \<Rightarrow> search_result" where
  "page q = \<lparr>sr_items = [q], sr_offset = 0, sr_rows = 10, sr_total = 1\<rparr>"

definition example_file :: file_doc where
  "example_file = \<lparr>file_classification = ''U'', tlsh = Some ''T1AB'',
                   ssdeep = Some ''3:abc:def''\<rparr>"

definition example_arch_env :: "string list \<Rightarrow> arch_env" where
  "example_arch_env failing =
     \<lparr>file_get = (\<lambda>h. if h = ''f00d'' then Some example_file else None),
      arch_is_accessible = (\<lambda>u c. True),
      file_search = (\<lambda>q p. if q \<in> set failing then Inl (SearchException ''boom'')
                             else Inr (page q)),
      result_search = (\<lambda>q. Inr (Some [])),
      result_multiget = (\<lambda>ids. Inr []),
      result_stream_search = (\<lambda>q. Inr []),
      set_iteration = remdups\<rparr>"

definition get_request :: request where
  "get_request = \<lparr>req_method = ''GET'', req_json = Map.empty, req_args = Map.empty\<rparr>"

section \<open>Refused transitions\<close>

text \<open>
  C2. A signature whose status is stale cannot be moved to a recognised status that is
  not a draft status: the answer is 403 and the datastore is left as it was.
\<close>

theorem change_status_stale_forbidden:
  assumes "st sid = Some data"
    and "status data \<in> set (STALE_STATUSES cfg)"
    and "x \<in> set (DEPLOYED_STATUSES cfg @ DRAFT_STATUSES cfg)"
    and "x \<notin> set (DRAFT_STATUSES cfg)"
  shows "\<exists>msg. change_status cfg st sid x today usr
           = (Inr (make_api_response NoData msg 403), st)"
  using assms by (auto simp add: change_status_def)

theorem change_status_stale_forbidden_witness:
  "(\<exists>msg. change_status example_config [''sig_1'' \<mapsto> sig_A\<lparr>status := ''INVALID''\<rparr>]
             ''sig_1'' ''DEPLOYED'' ''2024-01-01'' admin
           = (Inr (make_api_response NoData msg 403),
              [''sig_1'' \<mapsto> sig_A\<lparr>status := ''INVALID''\<rparr>]))"
  using change_status_stale_forbidden
    [of "[''sig_1'' \<mapsto> sig_A\<lparr>status := ''INVALID''\<rparr>]" "''sig_1''"
        "sig_A\<lparr>status := ''INVALID''\<rparr>" example_config "''DEPLOYED''" "''2024-01-01''" admin]
  by (simp add: example_config_def sig_A_def)

text \<open>
  C3. A signature whose status is a deployed status cannot be moved to a draft status:
  the answer is 403 and the datastore is left as it was.
\<close>

theorem change_status_deployed_to_draft_forbidden:
  assumes "st sid = Some data"
    and "status data \<in> set (DEPLOYED_STATUSES cfg)"
    and "x \<in> set (DRAFT_STATUSES cfg)"
  shows "\<exists>msg. change_status cfg st sid x today usr
           = (Inr (make_api_response NoData msg 403), st)"
  using assms by (auto simp add: change_status_def)

theorem change_status_deployed_to_draft_forbidden_witness:
  "(\<exists>msg. change_status example_config family_F ''yara_F_1'' ''TESTING'' ''2024-01-01'' admin
           = (Inr (make_api_response NoData msg 403), family_F))"
  using change_status_deployed_to_draft_forbidden
    [of family_F "''yara_F_1''" sig_A example_config "''TESTING''" "''2024-01-01''" admin]
  by (simp add: example_config_def sig_A_def family_F_def)

section \<open>The cascade of change\_status\<close>

text \<open>
  The cascade writes under the keys it computes from \<^verbatim>\<open>meta\<close> and under no other: a
  key that is not \<open>rule_id @ ''r.'' @ rule_version\<close> of one of the siblings holds after
  the loop what it held before.
\<close>

lemma disable_others_other_keys:
  assumes "\<forall>other \<in> set others. \<forall>m rid rv.
             meta other = Some m \<longrightarrow> map_of m ''rule_id'' = Some rid \<longrightarrow>
             map_of m ''rule_version'' = Some rv \<longrightarrow> k \<noteq> rid @ ''r.'' @ rv"
  shows "snd (disable_others cfg today un others st) k = st k"
  using assms
proof (induction others arbitrary: st)
  case Nil
  then show ?case by simp
next
  case (Cons other rest)
  then show ?case
    by (auto simp add: save_def split: option.splits)
qed

text \<open>
  So a change of status leaves every document as it was, the siblings it means to
  disable among them, unless the document is the target or is stored under a key that the
  cascade computes.
\<close>

lemma change_status_other_keys:
  assumes "k \<noteq> sid"
    and "\<forall>other \<in> set others. \<forall>m rid rv.
             meta other = Some m \<longrightarrow> map_of m ''rule_id'' = Some rid \<longrightarrow>
             map_of m ''rule_version'' = Some rv \<longrightarrow> k \<noteq> rid @ ''r.'' @ rv"
    and "st sid = Some data"
    and "multiget st (search_ids cfg st (status_query x (signature_id data) sid)) = Inr others"
  shows "snd (change_status cfg st sid x today usr) k = st k"
  using assms disable_others_other_keys [of others k cfg today "uname usr" st]
  by (auto simp add: change_status_def Let_def save_def split: option.splits prod.splits)

text \<open>
  C1, at the family of the specification's scenario: \<^verbatim>\<open>yara_F_1\<close> is deployed,
  \<^verbatim>\<open>yara_F_2\<close> is in testing and is moved to \<^verbatim>\<open>DEPLOYED\<close>. The change succeeds. The
  disabled and stamped copy of the sibling is stored under the key \<^verbatim>\<open>Fr.1\<close>; the
  sibling itself, under \<^verbatim>\<open>yara_F_1\<close>, is still deployed and carries no stamp.
\<close>

theorem change_status_cascade_misses_sibling:
  "change_status example_config family_F ''yara_F_2'' ''DEPLOYED'' ''2024-01-01'' admin =
     (Inr (make_api_response (Success True) [] 200),
      family_F(''Fr.1'' \<mapsto> sig_A\<lparr>state_change_date := Some ''2024-01-01'',
                                 state_change_user := Some ''admin'', status := ''DISABLED''\<rparr>,
               ''yara_F_2'' \<mapsto> sig_B\<lparr>state_change_date := Some ''2024-01-01'',
                                 state_change_user := Some ''admin'', status := ''DEPLOYED''\<rparr>))
   \<and> snd (change_status example_config family_F ''yara_F_2'' ''DEPLOYED'' ''2024-01-01'' admin)
         ''yara_F_1'' = Some sig_A
   \<and> status sig_A = ''DEPLOYED'' \<and> state_change_user sig_A = None"
  by (simp add: change_status_def example_config_def family_F_def family_search_def
        status_query_def sig_A_def sig_B_def admin_def save_def)

text \<open>
  The same request when the sibling has no \<^verbatim>\<open>meta\<close>: the cascade raises KeyError before
  it saves anything, so neither the sibling nor the target changes.
\<close>

lemma change_status_cascade_without_meta:
  "change_status example_config (family_F(''yara_F_1'' \<mapsto> sig_A\<lparr>meta := None\<rparr>))
       ''yara_F_2'' ''DEPLOYED'' ''2024-01-01'' admin
     = (Inl (KeyError ''meta''), family_F(''yara_F_1'' \<mapsto> sig_A\<lparr>meta := None\<rparr>))"
  by (simp add: change_status_def example_config_def family_F_def family_search_def
        status_query_def sig_A_def sig_B_def admin_def save_def)

section \<open>The bundle of download\_signatures\<close>

lemma add_output_distinct:
  "distinct (map fst files) \<Longrightarrow> distinct (map fst (add_output files s))"
  by (auto simp add: add_output_def distinct_update map_of_eq_None_iff split: option.splits)

lemma add_output_map_of:
  "map_of (add_output files s) f =
     (if f = out_fname s
      then Some ((case map_of files f of None \<Rightarrow> [] | Some ts \<Rightarrow> ts) @ [sig_data s])
      else map_of files f)"
  by (auto simp add: add_output_def update_conv' map_add_def split: option.splits)

lemma foldl_add_output_distinct:
  "distinct (map fst files) \<Longrightarrow> distinct (map fst (foldl add_output files sigs))"
  by (induction sigs arbitrary: files) (simp_all add: add_output_distinct)

lemma foldl_add_output_map_of:
  "map_of (foldl add_output files sigs) f =
     (if f \<in> out_fname ` set sigs
      then Some ((case map_of files f of None \<Rightarrow> [] | Some ts \<Rightarrow> ts) @ texts_of f sigs)
      else map_of files f)"
proof (induction sigs arbitrary: files)
  case Nil
  then show ?case by simp
next
  case (Cons s sigs)
  show ?case
    by (auto simp add: Cons.IH add_output_map_of texts_of_def filter_empty_conv image_iff
          split: option.splits)
qed


lemma bundle_entries_map_of:
  "map_of (bundle_entries docs) f =
     (if f \<in> out_fname ` set docs
      then Some (join [CHR 0x0A, CHR 0x0A] (texts_of f (sort_key sig_order docs)))
      else None)"
proof -
  have "map_of (bundle_entries docs) f =
          map_option (join [CHR 0x0A, CHR 0x0A])
            (map_of (foldl add_output [] (sort_key sig_order docs)) f)"
    unfolding bundle_entries_def by (simp add: map_of_map)
  also have "\<dots> = (if f \<in> out_fname ` set docs
      then Some (join [CHR 0x0A, CHR 0x0A] (texts_of f (sort_key sig_order docs)))
      else None)"
    by (simp add: foldl_add_output_map_of)
  finally show ?thesis .
qed

lemma bundle_entries_names:
  "distinct (map fst (bundle_entries docs))"
  "set (map fst (bundle_entries docs)) = out_fname ` set docs"
proof -
  have m: "map fst (bundle_entries docs) = map fst (foldl add_output [] (sort_key sig_order docs))"
    unfolding bundle_entries_def by (simp add: split_def comp_def)
  show "distinct (map fst (bundle_entries docs))"
    unfolding m by (rule foldl_add_output_distinct) simp
  have "dom (map_of (bundle_entries docs)) = out_fname ` set docs"
    by (auto simp add: bundle_entries_map_of dom_def)
  then show "set (map fst (bundle_entries docs)) = out_fname ` set docs"
    by (simp add: dom_map_of_conv_image_fst)
qed

lemma out_fname_eq_iff:
  assumes "CHR ''/'' \<notin> set (sig_type a)" and "CHR ''/'' \<notin> set (sig_type b)"
  shows "out_fname a = out_fname b \<longleftrightarrow> sig_type a = sig_type b \<and> sig_source a = sig_source b"
proof
  assume "out_fname a = out_fname b"
  then have e: "sig_type a @ CHR ''/'' # sig_source a = sig_type b @ CHR ''/'' # sig_source b"
    by (simp add: out_fname_def)
  have "takeWhile (\<lambda>c. c \<noteq> CHR ''/'') (sig_type a @ CHR ''/'' # sig_source a) = sig_type a"
    using assms(1) by (subst takeWhile_append2) auto
  moreover have "takeWhile (\<lambda>c. c \<noteq> CHR ''/'') (sig_type b @ CHR ''/'' # sig_source b) = sig_type b"
    using assms(2) by (subst takeWhile_append2) auto
  ultimately have "sig_type a = sig_type b" using e by simp
  with e show "sig_type a = sig_type b \<and> sig_source a = sig_source b" by simp
next
  assume "sig_type a = sig_type b \<and> sig_source a = sig_source b"
  then show "out_fname a = out_fname b" by (simp add: out_fname_def)
qed


text \<open>
  C5 (as amended). On a miss of the cache, the bundle is the archive of
  \<open>bundle_entries\<close> over the matching documents: they are sorted by \<^verbatim>\<open>order\<close>
  (stably), grouped by the file name \<^verbatim>\<open>{type}/{source}\<close>, and the archive has exactly
  one entry per file name, holding the rule texts of the documents of that name, in sorted
  order, joined by two newlines. Two documents whose types hold no slash have the same file
  name exactly when they have the same type and the same source, so for such types the
  groups are the (type, source) pairs.
\<close>

theorem download_signatures_bundle:
  assumes miss: "signature_cache (fingerprint env query_arg last_modified usr) = None"
    and docs: "multiget st (stream_search env st
                 (case query_arg of None \<Rightarrow> ''status:DEPLOYED'' | Some q \<Rightarrow> q)
                 (access_control usr)) = Inr docs"
  shows "fst (download_signatures env st signature_cache query_arg last_modified usr)
           = Inr (make_file_response (zip_read env (bundle_entries docs))
                    (zip_name (fingerprint env query_arg last_modified usr))
                    (length (zip_read env (bundle_entries docs))) ''application/zip'')
       \<and> distinct (map fst (bundle_entries docs))
       \<and> set (map fst (bundle_entries docs)) = out_fname ` set docs
       \<and> (\<forall>f \<in> out_fname ` set docs.
             map_of (bundle_entries docs) f =
               Some (join [CHR 0x0A, CHR 0x0A]
                      (map sig_data (filter (\<lambda>s. out_fname s = f) (sort_key sig_order docs)))))
       \<and> (\<forall>a b. CHR ''/'' \<notin> set (sig_type a) \<and> CHR ''/'' \<notin> set (sig_type b) \<longrightarrow>
             (out_fname a = out_fname b
                \<longleftrightarrow> sig_type a = sig_type b \<and> sig_source a = sig_source b))"
proof (intro conjI)
  show "fst (download_signatures env st signature_cache query_arg last_modified usr)
           = Inr (make_file_response (zip_read env (bundle_entries docs))
                    (zip_name (fingerprint env query_arg last_modified usr))
                    (length (zip_read env (bundle_entries docs))) ''application/zip'')"
    using miss docs
    by (simp add: download_signatures_def fingerprint_def get_cached_signatures_def Let_def)
  show "distinct (map fst (bundle_entries docs))"
    by (rule bundle_entries_names)
  show "set (map fst (bundle_entries docs)) = out_fname ` set docs"
    by (rule bundle_entries_names)
  show "\<forall>f \<in> out_fname ` set docs.
             map_of (bundle_entries docs) f =
               Some (join [CHR 0x0A, CHR 0x0A]
                      (map sig_data (filter (\<lambda>s. out_fname s = f) (sort_key sig_order docs))))"
    by (simp add: bundle_entries_map_of texts_of_def)
  show "\<forall>a b. CHR ''/'' \<notin> set (sig_type a) \<and> CHR ''/'' \<notin> set (sig_type b) \<longrightarrow>
             (out_fname a = out_fname b
                \<longleftrightarrow> sig_type a = sig_type b \<and> sig_source a = sig_source b)"
    using out_fname_eq_iff by blast
qed

text \<open>The scenario of the specification: two yara signatures of one source and a suricata
  signature of another, returned by the index in the reverse of their order.\<close>

lemma corpus_entries:
  "bundle_entries [sig_C, sig_B\<lparr>status := ''DEPLOYED''\<rparr>, sig_A]
     = [(''yara/source1'', ''rule a {}'' @ [CHR 0x0A, CHR 0x0A] @ ''rule b {}''),
        (''suricata/source2'', ''alert c'')]"
  by (simp add: bundle_entries_def add_output_def out_fname_def sig_A_def sig_B_def sig_C_def)

lemma example_dl_env_fields:
  "zip_read example_dl_env = example_zip_read"
  "sha256_hexdigest example_dl_env s = s"
  by (simp_all add: example_dl_env_def)

text \<open>The theorem at the scenario: the bundle has two entries, the yara one holding both
  rule texts with an empty line between them.\<close>

theorem download_signatures_bundle_witness:
  "fst (download_signatures example_dl_env corpus Map.empty None ''t0'' admin)
     = Inr (make_file_response
             (''[yara/source1:rule a {}'' @ [CHR 0x0A, CHR 0x0A]
                @ ''rule b {}][suricata/source2:alert c]'')
             ''al_signatures_status:.zip''
             (length (''[yara/source1:rule a {}'' @ [CHR 0x0A, CHR 0x0A]
                        @ ''rule b {}][suricata/source2:alert c]''))
             ''application/zip'')"
proof -
  have m: "Map.empty (fingerprint example_dl_env None ''t0'' admin) = None"
    by simp
  have d: "multiget corpus (stream_search example_dl_env corpus
             (case None of None \<Rightarrow> ''status:DEPLOYED'' | Some q \<Rightarrow> q)
             (access_control admin)) = Inr [sig_C, sig_B\<lparr>status := ''DEPLOYED''\<rparr>, sig_A]"
    by (simp add: example_dl_env_def deployed_ids_def corpus_def sig_A_def sig_B_def sig_C_def)
  from download_signatures_bundle [OF m d]
  have "fst (download_signatures example_dl_env corpus Map.empty None ''t0'' admin)
          = Inr (make_file_response
                  (zip_read example_dl_env
                     (bundle_entries [sig_C, sig_B\<lparr>status := ''DEPLOYED''\<rparr>, sig_A]))
                  (zip_name (fingerprint example_dl_env None ''t0'' admin))
                  (length (zip_read example_dl_env
                     (bundle_entries [sig_C, sig_B\<lparr>status := ''DEPLOYED''\<rparr>, sig_A])))
                  ''application/zip'')"
    by (rule conjunct1)
  then show ?thesis
    by (simp add: corpus_entries example_dl_env_fields fingerprint_def zip_name_def
          example_zip_read_def admin_def)
qed

text \<open>
  C5 as stated fails for types that hold a slash: the signatures of type \<^verbatim>\<open>a/b\<close>,
  source \<^verbatim>\<open>c\<close> and of type \<^verbatim>\<open>a\<close>, source \<^verbatim>\<open>b/c\<close> are two (type, source)
  pairs and share the file name \<^verbatim>\<open>a/b/c\<close>: the bundle has one entry, holding both
  texts.
\<close>

theorem download_signatures_pair_counterexample:
  "(sig_type sig_X, sig_source sig_X) \<noteq> (sig_type sig_Y, sig_source sig_Y)
   \<and> multiget slash_corpus (stream_search example_dl_env slash_corpus ''status:DEPLOYED''
        (access_control admin)) = Inr [sig_X, sig_Y]
   \<and> bundle_entries [sig_X, sig_Y] = [(''a/b/c'', ''x'' @ [CHR 0x0A, CHR 0x0A] @ ''y'')]
   \<and> fst (download_signatures example_dl_env slash_corpus Map.empty None ''t0'' admin)
       = Inr (make_file_response (example_zip_read [(''a/b/c'', ''x'' @ [CHR 0x0A, CHR 0x0A] @ ''y'')])
               ''al_signatures_status:.zip''
               (length (example_zip_read [(''a/b/c'', ''x'' @ [CHR 0x0A, CHR 0x0A] @ ''y'')]))
               ''application/zip'')"
  by (simp add: download_signatures_def get_cached_signatures_def bundle_entries_def
        add_output_def out_fname_def example_dl_env_def deployed_ids_def slash_corpus_def
        sig_X_def sig_Y_def sig_C_def admin_def zip_name_def Let_def)



section \<open>Adding and updating a source\<close>

lemma check_sources_None:
  "check_sources l data = None \<longleftrightarrow> \<not> (\<exists>s \<in> set l. src_name s = src_name data \<or> src_uri s = src_uri data)"
  by (induction l) auto

lemma check_sources_Some:
  "check_sources l data = Some r \<Longrightarrow>
     r = make_api_response (Success False) (''Update source filename already exist: '' @ src_name data) 400
   \<or> r = make_api_response (Success False) (''Update source uri already exist: '' @ src_uri data) 400"
  by (induction l) (auto split: if_splits)

lemma svc_sources_set_delta_sources: "svc_sources (set_delta_sources d l) = l"
  by (simp add: svc_sources_def set_delta_sources_def split: option.splits)

text \<open>
  C7 (as amended). For a service that generates signatures: a new source whose name or uri
  is that of a source of the list is refused with one of the two "already exist" answers
  (status 400) and the deltas are left as they were; a new source that collides with none
  is appended to the list, the list is handed to the save as the sources of the service's
  delta, and the answer reports what the save returned.
\<close>

theorem add_signature_source_generating:
  assumes "svc_generates_signatures (get_service_with_delta env deltas svc)"
  shows "((\<exists>s \<in> set (svc_sources (get_service_with_delta env deltas svc)).
             src_name s = src_name data \<or> src_uri s = src_uri data) \<longrightarrow>
           add_signature_source env deltas svc (Some data) \<in>
             {(Inr (make_api_response (Success False)
                      (''Update source filename already exist: '' @ src_name data) 400), deltas),
              (Inr (make_api_response (Success False)
                      (''Update source uri already exist: '' @ src_uri data) 400), deltas)})
       \<and> (\<not> (\<exists>s \<in> set (svc_sources (get_service_with_delta env deltas svc)).
             src_name s = src_name data \<or> src_uri s = src_uri data) \<longrightarrow>
           add_signature_source env deltas svc (Some data) =
             (Inr (make_api_response (Success (delta_save_ok env svc)) [] 200),
              if delta_save_ok env svc
              then deltas(svc := set_delta_sources (deltas svc)
                     (svc_sources (get_service_with_delta env deltas svc) @ [data]))
              else deltas)
           \<and> svc_sources (set_delta_sources (deltas svc)
                 (svc_sources (get_service_with_delta env deltas svc) @ [data]))
               = svc_sources (get_service_with_delta env deltas svc) @ [data])"
proof (intro conjI impI)
  assume "\<exists>s \<in> set (svc_sources (get_service_with_delta env deltas svc)).
             src_name s = src_name data \<or> src_uri s = src_uri data"
  then obtain r where r: "check_sources (svc_sources (get_service_with_delta env deltas svc)) data = Some r"
    using check_sources_None by (cases "check_sources (svc_sources (get_service_with_delta env deltas svc)) data") auto
  from check_sources_Some[OF r] r assms
  show "add_signature_source env deltas svc (Some data) \<in>
             {(Inr (make_api_response (Success False)
                      (''Update source filename already exist: '' @ src_name data) 400), deltas),
              (Inr (make_api_response (Success False)
                      (''Update source uri already exist: '' @ src_uri data) 400), deltas)}"
    by (auto simp add: add_signature_source_def)
next
  assume "\<not> (\<exists>s \<in> set (svc_sources (get_service_with_delta env deltas svc)).
             src_name s = src_name data \<or> src_uri s = src_uri data)"
  then have "check_sources (svc_sources (get_service_with_delta env deltas svc)) data = None"
    using check_sources_None by blast
  with assms show "add_signature_source env deltas svc (Some data) =
             (Inr (make_api_response (Success (delta_save_ok env svc)) [] 200),
              if delta_save_ok env svc
              then deltas(svc := set_delta_sources (deltas svc)
                     (svc_sources (get_service_with_delta env deltas svc) @ [data]))
              else deltas)"
    by (simp add: add_signature_source_def delta_save_def)
next
  show "svc_sources (set_delta_sources (deltas svc)
                 (svc_sources (get_service_with_delta env deltas svc) @ [data]))
               = svc_sources (get_service_with_delta env deltas svc) @ [data]"
    by (rule svc_sources_set_delta_sources)
qed

text \<open>The theorem at a service with two sources: a new source named as the second one,
  and a new source that collides with none.\<close>

theorem add_signature_source_generating_witness:
  "svc_generates_signatures (get_service_with_delta example_svc_env yara_deltas ''Yara'')
   \<and> add_signature_source example_svc_env yara_deltas ''Yara'' (Some (src2\<lparr>src_uri := ''http://c/x.yar''\<rparr>))
       \<in> {(Inr (make_api_response (Success False) ''Update source filename already exist: more.yar'' 400), yara_deltas),
          (Inr (make_api_response (Success False) ''Update source uri already exist: http://c/x.yar'' 400), yara_deltas)}
   \<and> add_signature_source example_svc_env yara_deltas ''Yara''
         (Some (src2\<lparr>src_name := ''new.yar'', src_uri := ''http://c/new.yar''\<rparr>))
       = (Inr (make_api_response (Success True) [] 200),
          yara_deltas(''Yara'' := yara_service True
             [src1, src2, src2\<lparr>src_name := ''new.yar'', src_uri := ''http://c/new.yar''\<rparr>]))"
  using add_signature_source_generating [of example_svc_env yara_deltas "''Yara''" "src2\<lparr>src_uri := ''http://c/x.yar''\<rparr>"]
        add_signature_source_generating [of example_svc_env yara_deltas "''Yara''" "src2\<lparr>src_name := ''new.yar'', src_uri := ''http://c/new.yar''\<rparr>"]
  by (simp add: svc_generates_signatures_def svc_sources_def src1_def src2_def make_api_response_def example_svc_env_def yara_deltas_def yara_service_def set_delta_sources_def)

text \<open>
  C7 as stated fails where the service does not generate signatures: that test comes
  first, so a new source that repeats the name and the uri of an existing one is answered
  with the "does not generate" error, not with a conflict. The deltas are unchanged there
  too.
\<close>

theorem add_signature_source_conflict_counterexample:
  "src_name src1 = src_name src1
   \<and> svc_sources (get_service_with_delta example_svc_env idle_deltas ''Yara'') = [src1]
   \<and> add_signature_source example_svc_env idle_deltas ''Yara'' (Some src1)
       = (Inr (make_api_response (Success False)
                ''This service does not generate alerts therefor you cannot add a source to get the alerts from''
                400), idle_deltas)
   \<and> fst (add_signature_source example_svc_env idle_deltas ''Yara'' (Some src1))
       \<noteq> Inr (make_api_response (Success False)
                (''Update source filename already exist: '' @ src_name src1) 400)
   \<and> fst (add_signature_source example_svc_env idle_deltas ''Yara'' (Some src1))
       \<noteq> Inr (make_api_response (Success False)
                (''Update source uri already exist: '' @ src_uri src1) 400)"
  by (simp add: add_signature_source_def example_svc_env_def idle_deltas_def yara_service_def
        svc_generates_signatures_def svc_sources_def make_api_response_def src1_def)

lemma replace_source_eq:
  "replace_source data l (acc, f) =
     (acc @ map (\<lambda>s. if src_name s = src_name data then data else s) l,
      f \<or> (\<exists>s \<in> set l. src_name s = src_name data))"
  by (induction l arbitrary: acc f) auto

text \<open>
  C8 (as amended). When the name of the new data differs from the name in the path, the
  update is refused (status 400, "not allowed to change the source resulting filename")
  and the deltas are left as they were. When the names agree, the service generates
  signatures and its list has a source of that name, every entry of that name is replaced
  by the new data where it stands, the other entries keep their place, the list is handed
  to the save as the sources of the service's delta, and the answer reports what the save
  returned. When the names agree and the service does not generate signatures, or its list
  is empty, the update is refused with status 400 and the deltas are left as they were.
\<close>

theorem update_signature_source_cases:
  "(name \<noteq> src_name data \<longrightarrow>
      update_signature_source env deltas svc name data =
        (Inr (make_api_response (Success False)
               ''You are not allowed to change the source resulting filename.'' 400), deltas))
   \<and> (name = src_name data
       \<and> svc_generates_signatures (get_service_with_delta env deltas svc)
       \<and> (\<exists>s \<in> set (svc_sources (get_service_with_delta env deltas svc)). src_name s = name) \<longrightarrow>
      update_signature_source env deltas svc name data =
        (Inr (make_api_response (Success (delta_save_ok env svc)) [] 200),
         if delta_save_ok env svc
         then deltas(svc := set_delta_sources (deltas svc)
                (map (\<lambda>s. if src_name s = name then data else s)
                   (svc_sources (get_service_with_delta env deltas svc))))
         else deltas))
   \<and> (name = src_name data
       \<and> (\<not> svc_generates_signatures (get_service_with_delta env deltas svc)
          \<or> svc_sources (get_service_with_delta env deltas svc) = []) \<longrightarrow>
      (\<exists>msg. update_signature_source env deltas svc name data =
         (Inr (make_api_response (Success False) msg 400), deltas)))"
proof (intro conjI impI)
  assume "name \<noteq> src_name data"
  then show "update_signature_source env deltas svc name data =
        (Inr (make_api_response (Success False)
               ''You are not allowed to change the source resulting filename.'' 400), deltas)"
    by (simp add: update_signature_source_def Let_def)
next
  assume a: "name = src_name data
       \<and> svc_generates_signatures (get_service_with_delta env deltas svc)
       \<and> (\<exists>s \<in> set (svc_sources (get_service_with_delta env deltas svc)). src_name s = name)"
  then have ne: "svc_sources (get_service_with_delta env deltas svc) \<noteq> []" by auto
  from a ne show "update_signature_source env deltas svc name data =
        (Inr (make_api_response (Success (delta_save_ok env svc)) [] 200),
         if delta_save_ok env svc
         then deltas(svc := set_delta_sources (deltas svc)
                (map (\<lambda>s. if src_name s = name then data else s)
                   (svc_sources (get_service_with_delta env deltas svc))))
         else deltas)"
    by (auto simp add: update_signature_source_def Let_def replace_source_eq delta_save_def)
next
  assume "name = src_name data
       \<and> (\<not> svc_generates_signatures (get_service_with_delta env deltas svc)
          \<or> svc_sources (get_service_with_delta env deltas svc) = [])"
  then show "\<exists>msg. update_signature_source env deltas svc name data =
         (Inr (make_api_response (Success False) msg 400), deltas)"
    by (auto simp add: update_signature_source_def Let_def)
qed

text \<open>The theorem at a renaming request, at an update of the first of two sources, and at
  a service with no source.\<close>

theorem update_signature_source_cases_witness:
  "update_signature_source example_svc_env yara_deltas ''Yara'' ''other.yar'' src2 =
        (Inr (make_api_response (Success False)
               ''You are not allowed to change the source resulting filename.'' 400), yara_deltas)
   \<and> update_signature_source example_svc_env yara_deltas ''Yara'' ''rules.yar''
        (src1\<lparr>src_uri := ''http://c/rules.yar''\<rparr>) =
        (Inr (make_api_response (Success True) [] 200),
         yara_deltas(''Yara'' := yara_service True [src1\<lparr>src_uri := ''http://c/rules.yar''\<rparr>, src2]))
   \<and> (\<exists>msg. update_signature_source example_svc_env empty_deltas ''Yara'' ''rules.yar'' src1 =
         (Inr (make_api_response (Success False) msg 400), empty_deltas))"
  using update_signature_source_cases [of "''other.yar''" src2 example_svc_env yara_deltas "''Yara''"]
        update_signature_source_cases [of "''rules.yar''" "src1\<lparr>src_uri := ''http://c/rules.yar''\<rparr>" example_svc_env yara_deltas "''Yara''"]
        update_signature_source_cases [of "''rules.yar''" src1 example_svc_env empty_deltas "''Yara''"]
  by (simp add: svc_generates_signatures_def svc_sources_def src1_def src2_def make_api_response_def
        example_svc_env_def yara_deltas_def empty_deltas_def yara_service_def set_delta_sources_def)

text \<open>
  C8 as stated fails at two guards of the handler. A service that does not generate
  signatures has its update refused although the names agree and the source exists: nothing
  is replaced. A service with an empty list gets status 400 for a name that no source
  bears, not 404.
\<close>

theorem update_signature_source_counterexample:
  "src_name src1 = ''rules.yar''
   \<and> svc_sources (get_service_with_delta example_svc_env idle_deltas ''Yara'') = [src1]
   \<and> update_signature_source example_svc_env idle_deltas ''Yara'' ''rules.yar''
        (src1\<lparr>src_uri := ''http://c/rules.yar''\<rparr>) =
        (Inr (make_api_response (Success False)
               ''This service does not generate alerts therefor you cannot update its sources.''
               400), idle_deltas)
   \<and> svc_sources (get_service_with_delta example_svc_env empty_deltas ''Yara'') = []
   \<and> update_signature_source example_svc_env empty_deltas ''Yara'' ''rules.yar'' src1 =
        (Inr (make_api_response (Success False)
               ''This service does not have any sources therefor you cannot update any source.''
               400), empty_deltas)"
  by (simp add: update_signature_source_def example_svc_env_def idle_deltas_def empty_deltas_def
        yara_service_def svc_generates_signatures_def svc_sources_def src1_def)

text \<open>
  The remaining case: the names agree, the service generates signatures, its list is not
  empty and holds no source of that name. The handler means to answer 404, and raises
  AttributeError while formatting the message.
\<close>

lemma update_signature_source_unknown_name_raises:
  assumes "svc_generates_signatures (get_service_with_delta env deltas svc)"
    and "svc_sources (get_service_with_delta env deltas svc) \<noteq> []"
    and "\<not> (\<exists>s \<in> set (svc_sources (get_service_with_delta env deltas svc)). src_name s = src_name data)"
  shows "\<exists>msg. update_signature_source env deltas svc (src_name data) data = (Inl (AttributeError msg), deltas)"
  using assms by (auto simp add: update_signature_source_def Let_def replace_source_eq)

section \<open>The mandatory fields of add\_signature\<close>

text \<open>
  C10. A request body with a type leaves the validation of line 51 by an uncaught KeyError,
  not by the 400 answer, when it lacks the \<^verbatim>\<open>name\<close> key, when it has a name and lacks
  the \<^verbatim>\<open>data\<close> key, and when it has both and lacks the \<^verbatim>\<open>revision\<close> key that
  the composite id is built from; a name that is present and null gets the 400 answer. The
  datastore is untouched in all four cases.
\<close>

theorem add_signature_missing_key_raises:
  assumes "map_of data ''type'' = Some t" and "t \<noteq> JNull"
  shows "(map_of data ''name'' = None \<longrightarrow>
            add_signature env st data = (Inl (KeyError ''name''), st))
       \<and> (\<forall>n. map_of data ''name'' = Some n \<and> n \<noteq> JNull \<and> map_of data ''data'' = None \<longrightarrow>
            add_signature env st data = (Inl (KeyError ''data''), st))
       \<and> (\<forall>n d. map_of data ''name'' = Some n \<and> n \<noteq> JNull
              \<and> map_of data ''data'' = Some d \<and> d \<noteq> JNull
              \<and> map_of data ''revision'' = None \<longrightarrow>
            add_signature env st data = (Inl (KeyError ''revision''), st))
       \<and> (map_of data ''name'' = Some JNull \<longrightarrow>
            add_signature env st data = (Inr (make_api_response NoData mandatory_msg 400), st))"
  using assms
  by (auto simp add: add_signature_def Let_def update_conv' split: option.splits)

text \<open>Four bodies of type \<^verbatim>\<open>yara\<close>: without a name, without data, without a
  revision, and with a null name.\<close>

theorem add_signature_missing_key_raises_witness:
  "add_signature example_add_env Map.empty [(''type'', JStr ''yara''), (''data'', JStr ''rule x {}'')]
     = (Inl (KeyError ''name''), Map.empty)
   \<and> add_signature example_add_env Map.empty [(''type'', JStr ''yara''), (''name'', JStr ''x'')]
     = (Inl (KeyError ''data''), Map.empty)
   \<and> add_signature example_add_env Map.empty
        [(''type'', JStr ''yara''), (''name'', JStr ''x''), (''data'', JStr ''rule x {}''),
         (''source'', JStr ''src'')]
     = (Inl (KeyError ''revision''), Map.empty)
   \<and> add_signature example_add_env Map.empty
        [(''type'', JStr ''yara''), (''name'', JNull), (''data'', JStr ''rule x {}'')]
     = (Inr (make_api_response NoData mandatory_msg 400), Map.empty)"
  using add_signature_missing_key_raises
          [of "[(''type'', JStr ''yara''), (''data'', JStr ''rule x {}'')]" "JStr ''yara''" example_add_env Map.empty]
        add_signature_missing_key_raises
          [of "[(''type'', JStr ''yara''), (''name'', JStr ''x'')]" "JStr ''yara''" example_add_env Map.empty]
        add_signature_missing_key_raises
          [of "[(''type'', JStr ''yara''), (''name'', JStr ''x''), (''data'', JStr ''rule x {}''),
         (''source'', JStr ''src'')]" "JStr ''yara''" example_add_env Map.empty]
        add_signature_missing_key_raises
          [of "[(''type'', JStr ''yara''), (''name'', JNull), (''data'', JStr ''rule x {}'')]" "JStr ''yara''" example_add_env Map.empty]
  by simp

section \<open>Failures in the related-files searches\<close>

lemma process_tlsh_slots:
  "out_tlsh (process_tlsh env f p out) =
     (case tlsh_search env f p of Inr r \<Rightarrow> Hits r | Inl e \<Rightarrow> search_error e)"
  "out_ssdeep1 (process_tlsh env f p out) = out_ssdeep1 out"
  "out_ssdeep2 (process_tlsh env f p out) = out_ssdeep2 out"
  "out_vector (process_tlsh env f p out) = out_vector out"
  by (simp_all add: process_tlsh_def split: sum.splits)

lemma process_ssdeep_slots:
  "(out_ssdeep1 (process_ssdeep env f p out), out_ssdeep2 (process_ssdeep env f p out)) =
     (case ssdeep_search env f p of
        Inr (r1, r2) \<Rightarrow> (Hits r1, Hits r2)
      | Inl e \<Rightarrow> (search_error e, search_error e))"
  "out_tlsh (process_ssdeep env f p out) = out_tlsh out"
  "out_vector (process_ssdeep env f p out) = out_vector out"
  by (simp_all add: process_ssdeep_def ssdeep_search_def ssdeep_failed_def Let_def split: sum.splits)

lemma process_vector_slots:
  "out_vector (process_vector env h p out) =
     (case vector_search env h p of Inr r \<Rightarrow> Hits r | Inl e \<Rightarrow> search_error e)"
  "out_tlsh (process_vector env h p out) = out_tlsh out"
  "out_ssdeep1 (process_vector env h p out) = out_ssdeep1 out"
  "out_ssdeep2 (process_vector env h p out) = out_ssdeep2 out"
  by (simp_all add: process_vector_def split: sum.splits)

text \<open>
  C9 (as amended). For a file that exists and that the caller may see, the answer is always
  status 200 with the four slots, and the three \<^verbatim>\<open>try\<close> blocks are isolated from one
  another: the \<^verbatim>\<open>tlsh\<close> slot holds the answer of the tlsh search or the text of its
  error; the \<^verbatim>\<open>vector\<close> slot holds the answer of the vector block or the text of its
  error; the \<^verbatim>\<open>ssdeep1\<close> and \<^verbatim>\<open>ssdeep2\<close> slots hold the two answers when both
  ssdeep searches go through, and both hold the text of the same error when either fails
  (the second search does not run after the first has failed).
\<close>

theorem get_additional_details_blocks:
  assumes "file_get env sha256 = Some file_obj"
    and "arch_is_accessible env (user_classification usr) (file_classification file_obj)"
  shows "\<exists>out.
      get_additional_details env req sha256 (Some usr) = make_api_response (Related out) [] 200
    \<and> out_tlsh out =
        (case tlsh_search env file_obj (request_params req sha256 usr) of
           Inr r \<Rightarrow> Hits r | Inl e \<Rightarrow> search_error e)
    \<and> (out_ssdeep1 out, out_ssdeep2 out) =
        (case ssdeep_search env file_obj (request_params req sha256 usr) of
           Inr (r1, r2) \<Rightarrow> (Hits r1, Hits r2)
         | Inl e \<Rightarrow> (search_error e, search_error e))
    \<and> out_vector out =
        (case vector_search env sha256 (request_params req sha256 usr) of
           Inr r \<Rightarrow> Hits r | Inl e \<Rightarrow> search_error e)"
proof -
  define p where "p = request_params req sha256 usr"
  define out0 where "out0 = \<lparr>out_tlsh = EmptySlot, out_ssdeep1 = EmptySlot,
                              out_ssdeep2 = EmptySlot, out_vector = EmptySlot\<rparr>"
  define out1 where "out1 = process_tlsh env file_obj p out0"
  define out2 where "out2 = process_ssdeep env file_obj p out1"
  define out3 where "out3 = process_vector env sha256 p out2"
  have resp: "get_additional_details env req sha256 (Some usr)
                = make_api_response (Related out3) [] 200"
    using assms by (simp add: get_additional_details_def Let_def p_def out0_def out1_def
                      out2_def out3_def)
  have t: "out_tlsh out3 =
        (case tlsh_search env file_obj p of Inr r \<Rightarrow> Hits r | Inl e \<Rightarrow> search_error e)"
    by (simp only: out3_def out2_def out1_def process_vector_slots process_ssdeep_slots
          process_tlsh_slots)
  have s: "(out_ssdeep1 out3, out_ssdeep2 out3) =
        (case ssdeep_search env file_obj p of
           Inr (r1, r2) \<Rightarrow> (Hits r1, Hits r2)
         | Inl e \<Rightarrow> (search_error e, search_error e))"
    by (simp only: out3_def out2_def process_vector_slots process_ssdeep_slots)
  have v: "out_vector out3 =
        (case vector_search env sha256 p of Inr r \<Rightarrow> Hits r | Inl e \<Rightarrow> search_error e)"
    by (simp only: out3_def process_vector_slots)
  from resp t s v show ?thesis
    unfolding p_def by blast
qed

text \<open>The theorem where only the tlsh search fails: its slot holds the error, the three
  others their answers.\<close>

theorem get_additional_details_blocks_witness:
  "\<exists>out.
      get_additional_details (example_arch_env [''tlsh:T1AB'']) get_request ''f00d'' (Some admin)
        = make_api_response (Related out) [] 200
    \<and> out_tlsh out = ErrorText ''SearchException: boom''
    \<and> (out_ssdeep1 out, out_ssdeep2 out) = (Hits (page ''ssdeep:abc~''), Hits (page ''ssdeep:def~''))
    \<and> out_vector out = Hits (page [])"
  using get_additional_details_blocks
          [of "example_arch_env [''tlsh:T1AB'']" "''f00d''" example_file admin get_request]
  by (simp add: example_arch_env_def example_file_def tlsh_search_def ssdeep_search_def
        vector_search_def escape_slash_def py_index_def search_error_def Let_def)

text \<open>
  C9 as stated fails for the two ssdeep searches. When only the second one raises, the
  \<^verbatim>\<open>ssdeep1\<close> slot holds the error text although its own search answered; when only the
  first one raises, the \<^verbatim>\<open>ssdeep2\<close> slot holds the error text although its own search
  would have answered.
\<close>

theorem get_additional_details_ssdeep_counterexample:
  "file_search (example_arch_env [''ssdeep:def~'']) ''ssdeep:abc~''
       (request_params get_request ''f00d'' admin) = Inr (page ''ssdeep:abc~'')
   \<and> api_response (get_additional_details (example_arch_env [''ssdeep:def~''])
                     get_request ''f00d'' (Some admin))
       = Related \<lparr>out_tlsh = Hits (page ''tlsh:T1AB''),
                  out_ssdeep1 = ErrorText ''SearchException: boom'',
                  out_ssdeep2 = ErrorText ''SearchException: boom'',
                  out_vector = Hits (page [])\<rparr>
   \<and> file_search (example_arch_env [''ssdeep:abc~'']) ''ssdeep:def~''
       (request_params get_request ''f00d'' admin) = Inr (page ''ssdeep:def~'')
   \<and> api_response (get_additional_details (example_arch_env [''ssdeep:abc~''])
                     get_request ''f00d'' (Some admin))
       = Related \<lparr>out_tlsh = Hits (page ''tlsh:T1AB''),
                  out_ssdeep1 = ErrorText ''SearchException: boom'',
                  out_ssdeep2 = ErrorText ''SearchException: boom'',
                  out_vector = Hits (page [])\<rparr>"
  by (simp add: get_additional_details_def example_arch_env_def example_file_def
        process_tlsh_def process_ssdeep_def process_vector_def tlsh_search_def
        vector_search_def ssdeep_failed_def escape_slash_def py_index_def search_error_def
        make_api_response_def Let_def)

end
